theory Spec2Isabelle
  imports Complex_Main
begin

section \<open>Data model (src/src/CacheContext.jsx)\<close>

text \<open>
  Values held in the fields of an entity. The cache never looks inside an entity except
  for the fields \<open>id\<close> and \<open>status\<close>, which it compares with \<open>===\<close>; on the primitive
  values below strict equality is HOL equality.
\<close>

datatype jsval = JNull | JBool bool | JNum int | JStr string

text \<open>
  An entity is a JavaScript object: a finite map from property names to values. A
  property that is absent reads as \<open>undefined\<close>, here \<open>None\<close>. The object spread
  \<open>{...w, ...updates}\<close> is \<open>w ++ updates\<close>.
\<close>

type_synonym entity = "string \<rightharpoonup> jsval"

text \<open>The \<open>data\<close> field of a slot: \<open>null\<close> or an array of entities.\<close>

type_synonym payload = "entity list option"

text \<open>The eight properties of the cache object (lines 16-25).\<close>

datatype key =
  Warehouses | Locations | Products | Users | Receipts | Deliveries | Transfers | Adjustments

record slot =
  data :: payload
  timestamp :: "int option"
  loading :: bool

type_synonym cache = "key \<Rightarrow> slot"

datatype error = FetchError string | TypeError

text \<open>The initial state given to \<open>useState\<close> (lines 16-25).\<close>

fun initialCache :: cache where
  "initialCache Warehouses = \<lparr>data = None, timestamp = None, loading = False\<rparr>"
| "initialCache Locations = \<lparr>data = None, timestamp = None, loading = False\<rparr>"
| "initialCache Products = \<lparr>data = None, timestamp = None, loading = False\<rparr>"
| "initialCache Users = \<lparr>data = None, timestamp = None, loading = False\<rparr>"
| "initialCache Receipts = \<lparr>data = None, timestamp = None, loading = False\<rparr>"
| "initialCache Deliveries = \<lparr>data = None, timestamp = None, loading = False\<rparr>"
| "initialCache Transfers = \<lparr>data = None, timestamp = None, loading = False\<rparr>"
| "initialCache Adjustments = \<lparr>data = None, timestamp = None, loading = False\<rparr>"

section \<open>Freshness check\<close>

definition CACHE_DURATION :: int where
  "CACHE_DURATION = 5 * 60 * 1000"

text \<open>
  \<open>isCacheValid\<close> (lines 31-35). \<open>cache\<close> is the state value captured by the closure of the
  current render; \<open>now\<close> is the value of \<open>Date.now()\<close>. \<open>!cached.data\<close> holds for
  \<open>null\<close> (an array is truthy even when empty); \<open>!cached.timestamp\<close> holds for \<open>null\<close>
  and for the number 0.
\<close>

definition isCacheValid :: "cache \<Rightarrow> int \<Rightarrow> key \<Rightarrow> bool" where
  "isCacheValid cache now k =
     (let cached = cache k in
      case data cached of
        None \<Rightarrow> False
      | Some _ \<Rightarrow>
          (case timestamp cached of
             None \<Rightarrow> False
           | Some t \<Rightarrow> if t = 0 then False else now - t < CACHE_DURATION))"

section \<open>State updates\<close>

text \<open>
  Every \<open>setCache(prev => ...)\<close> of the source is a function from the previous state
  \<open>prev\<close> to the next one. The source reads two different things: \<open>cache\<close>, the value
  captured when the callback was created, and \<open>prev\<close>, the state the update is applied
  to. The model keeps them apart in the same way.
\<close>

text \<open>Lines 57-60: \<open>{...prev, [key]: {...prev[key], loading: true}}\<close>.\<close>

definition setLoading :: "key \<Rightarrow> cache \<Rightarrow> cache" where
  "setLoading k prev = prev(k := (prev k)\<lparr>loading := True\<rparr>)"

text \<open>Lines 66-73: the update after a successful fetch.\<close>

definition commitFetch :: "key \<Rightarrow> payload \<Rightarrow> int \<Rightarrow> cache \<Rightarrow> cache" where
  "commitFetch k d now prev = prev(k := \<lparr>data = d, timestamp = Some now, loading = False\<rparr>)"

text \<open>Lines 78-81: the update in the \<open>catch\<close> block.\<close>

definition resetLoading :: "key \<Rightarrow> cache \<Rightarrow> cache" where
  "resetLoading k prev = prev(k := (prev k)\<lparr>loading := False\<rparr>)"

text \<open>
  \<open>updateCache\<close> (lines 87-96). The updater is a function of the current data or a
  literal value (\<open>typeof updater === 'function'\<close>).
\<close>

datatype updater = Fn "payload \<Rightarrow> payload" | Lit payload

definition updateCache :: "key \<Rightarrow> updater \<Rightarrow> int \<Rightarrow> cache \<Rightarrow> cache" where
  "updateCache k u now prev =
     prev(k := \<lparr>data = (case u of Fn f \<Rightarrow> f (data (prev k)) | Lit v \<Rightarrow> v),
                timestamp = Some now,
                loading = False\<rparr>)"

text \<open>\<open>invalidateCache\<close> (lines 99-104).\<close>

definition invalidateCache :: "key \<Rightarrow> cache \<Rightarrow> cache" where
  "invalidateCache k prev = prev(k := \<lparr>data = None, timestamp = None, loading = False\<rparr>)"

text \<open>
  \<open>clearAllCache\<close> (lines 107-118): \<open>setCache\<close> with a literal object, so the previous
  state is not read.
\<close>

definition clearAllCache :: "cache \<Rightarrow> cache" where
  "clearAllCache prev =
     (\<lambda>k. case k of
        Warehouses \<Rightarrow> \<lparr>data = None, timestamp = None, loading = False\<rparr>
      | Locations \<Rightarrow> \<lparr>data = None, timestamp = None, loading = False\<rparr>
      | Products \<Rightarrow> \<lparr>data = None, timestamp = None, loading = False\<rparr>
      | Users \<Rightarrow> \<lparr>data = None, timestamp = None, loading = False\<rparr>
      | Receipts \<Rightarrow> \<lparr>data = None, timestamp = None, loading = False\<rparr>
      | Deliveries \<Rightarrow> \<lparr>data = None, timestamp = None, loading = False\<rparr>
      | Transfers \<Rightarrow> \<lparr>data = None, timestamp = None, loading = False\<rparr>
      | Adjustments \<Rightarrow> \<lparr>data = None, timestamp = None, loading = False\<rparr>)"

section \<open>Read-through fetch\<close>

text \<open>
  The world a call runs in: \<open>store\<close> is the React state that the \<open>setCache\<close> updaters
  are applied to, \<open>env\<close> is everything outside the cache that a fetch function acts on
  (the backend, a request log, a call counter). A fetch function is an effectful call:
  it takes the outside world and returns its outcome with the outside world after the
  call.
\<close>

record 'b world =
  store :: cache
  env :: 'b

type_synonym 'b fetchFunction = "'b \<Rightarrow> (error + payload) \<times> 'b"

datatype 'a promise = Resolved 'a | Rejected error | Pending

text \<open>
  The polling of lines 46-53: every tick of the interval reads \<open>cache[key].loading\<close>
  from the captured \<open>cache\<close>. The fuel is the number of ticks observed; \<open>None\<close> means
  that the promise has not resolved within them.
\<close>

fun poll :: "cache \<Rightarrow> key \<Rightarrow> nat \<Rightarrow> payload option" where
  "poll cache k 0 = None"
| "poll cache k (Suc n) =
     (if \<not> loading (cache k) then Some (data (cache k)) else poll cache k n)"

text \<open>
  \<open>fetchWithCache\<close> (lines 38-84) up to its \<open>await\<close>: the branch taken, and for the third
  branch the update that sets \<open>loading\<close> and the invocation of the fetch function, whose
  outcome is delivered when the promise settles.
\<close>

datatype branch = CacheHit payload | JoinWait | Fetching "error + payload"

definition fetchWithCache_begin ::
  "cache \<Rightarrow> key \<Rightarrow> 'b fetchFunction \<Rightarrow> bool \<Rightarrow> int \<Rightarrow> 'b world \<Rightarrow> branch \<times> 'b world" where
  "fetchWithCache_begin cache k fetchFunction forceRefresh now w =
     (if \<not> forceRefresh \<and> isCacheValid cache now k then (CacheHit (data (cache k)), w)
      else if loading (cache k) then (JoinWait, w)
      else
        let w1 = w\<lparr>store := setLoading k (store w)\<rparr>;
            (r, b) = fetchFunction (env w1)
        in (Fetching r, w1\<lparr>env := b\<rparr>))"

text \<open>
  The rest of \<open>fetchWithCache\<close> after the \<open>await\<close> (lines 63-83): on success the slot is
  committed at time \<open>now\<close> and the data returned, on failure \<open>loading\<close> is reset and the
  error thrown again.
\<close>

definition fetchWithCache_settle ::
  "key \<Rightarrow> error + payload \<Rightarrow> int \<Rightarrow> 'b world \<Rightarrow> payload promise \<times> 'b world" where
  "fetchWithCache_settle k r now w =
     (case r of
        Inr d \<Rightarrow> (Resolved d, w\<lparr>store := commitFetch k d now (store w)\<rparr>)
      | Inl e \<Rightarrow> (Rejected e, w\<lparr>store := resetLoading k (store w)\<rparr>))"

text \<open>
  A call of \<open>fetchWithCache\<close> that runs to its end with nothing in between: \<open>now\<close> is
  the clock when it is called, \<open>now'\<close> the clock when the fetch settles, \<open>fuel\<close> the
  number of polling ticks a waiting caller is observed for.
\<close>

definition fetchWithCache ::
  "cache \<Rightarrow> key \<Rightarrow> 'b fetchFunction \<Rightarrow> bool \<Rightarrow> int \<Rightarrow> int \<Rightarrow> nat \<Rightarrow> 'b world
     \<Rightarrow> payload promise \<times> 'b world" where
  "fetchWithCache cache k fetchFunction forceRefresh now now' fuel w =
     (case fetchWithCache_begin cache k fetchFunction forceRefresh now w of
        (CacheHit d, w1) \<Rightarrow> (Resolved d, w1)
      | (JoinWait, w1) \<Rightarrow>
          (case poll cache k fuel of None \<Rightarrow> (Pending, w1) | Some d \<Rightarrow> (Resolved d, w1))
      | (Fetching r, w1) \<Rightarrow> fetchWithCache_settle k r now' w1)"

section \<open>The fetchers of the provider\<close>

text \<open>
  The backend is an external collaborator: it answers a request with a payload or fails.
  \<open>api\<close> (the client in \<open>api.js\<close>) sends one request; the outside world of these calls is
  the log of the requests sent so far.
\<close>

datatype request =
  GetWarehouses
| GetLocations "string option"
| GetProducts
| GetUsers
| GetDocuments key string string
| ConfirmDocument key "jsval option"

type_synonym backend = "request \<Rightarrow> error + payload"

definition api :: "backend \<Rightarrow> request \<Rightarrow> request list fetchFunction" where
  "api backend req = (\<lambda>sent. (backend req, sent @ [req]))"

text \<open>Lines 121-135.\<close>

definition getWarehouses ::
  "cache \<Rightarrow> backend \<Rightarrow> bool \<Rightarrow> int \<Rightarrow> int \<Rightarrow> nat \<Rightarrow> request list world
     \<Rightarrow> payload promise \<times> request list world" where
  "getWarehouses cache backend forceRefresh =
     fetchWithCache cache Warehouses (api backend GetWarehouses) forceRefresh"

definition getLocations ::
  "cache \<Rightarrow> backend \<Rightarrow> string option \<Rightarrow> bool \<Rightarrow> int \<Rightarrow> int \<Rightarrow> nat \<Rightarrow> request list world
     \<Rightarrow> payload promise \<times> request list world" where
  "getLocations cache backend warehouseId forceRefresh =
     fetchWithCache cache Locations (api backend (GetLocations warehouseId)) forceRefresh"

definition getProducts ::
  "cache \<Rightarrow> backend \<Rightarrow> bool \<Rightarrow> int \<Rightarrow> int \<Rightarrow> nat \<Rightarrow> request list world
     \<Rightarrow> payload promise \<times> request list world" where
  "getProducts cache backend forceRefresh =
     fetchWithCache cache Products (api backend GetProducts) forceRefresh"

definition getUsers ::
  "cache \<Rightarrow> backend \<Rightarrow> bool \<Rightarrow> int \<Rightarrow> int \<Rightarrow> nat \<Rightarrow> request list world
     \<Rightarrow> payload promise \<times> request list world" where
  "getUsers cache backend forceRefresh =
     fetchWithCache cache Users (api backend GetUsers) forceRefresh"

text \<open>
  \<open>getDocuments\<close> (lines 138-161). \<open>doc.status === statusFilter\<close> compares the field with
  a string; \<open>if (statusFilter)\<close> holds for every string but the empty one. In the
  \<open>then\<close> callback \<open>data.filter\<close> throws a \<open>TypeError\<close> when the data is \<open>null\<close>.
\<close>

definition DOCUMENT_CACHE_DURATION :: int where
  "DOCUMENT_CACHE_DURATION = 1 * 60 * 1000"

definition filterStatus :: "string \<Rightarrow> entity list \<Rightarrow> entity list" where
  "filterStatus statusFilter docs =
     filter (\<lambda>doc. doc ''status'' = Some (JStr statusFilter)) docs"

definition documentsFresh :: "slot \<Rightarrow> int \<Rightarrow> bool" where
  "documentsFresh cached now =
     (case data cached of
        None \<Rightarrow> False
      | Some _ \<Rightarrow>
          (case timestamp cached of
             None \<Rightarrow> False
           | Some t \<Rightarrow> if t = 0 then False else now - t < DOCUMENT_CACHE_DURATION))"

definition thenFilter :: "string \<Rightarrow> payload promise \<Rightarrow> payload promise" where
  "thenFilter statusFilter p =
     (case p of
        Resolved d \<Rightarrow>
          (if statusFilter \<noteq> []
           then (case d of
                   None \<Rightarrow> Rejected TypeError
                 | Some docs \<Rightarrow> Resolved (Some (filterStatus statusFilter docs)))
           else Resolved d)
      | Rejected e \<Rightarrow> Rejected e
      | Pending \<Rightarrow> Pending)"

definition getDocuments ::
  "cache \<Rightarrow> backend \<Rightarrow> key \<Rightarrow> string \<Rightarrow> bool \<Rightarrow> int \<Rightarrow> int \<Rightarrow> nat \<Rightarrow> request list world
     \<Rightarrow> payload promise \<times> request list world" where
  "getDocuments cache backend type statusFilter forceRefresh now now' fuel w =
     (let cacheKey = type;
          cached = cache cacheKey
      in if \<not> forceRefresh \<and> documentsFresh cached now
         then (if statusFilter \<noteq> []
               then (Resolved (map_option (filterStatus statusFilter) (data cached)), w)
               else (Resolved (data cached), w))
         else (case fetchWithCache cache cacheKey (api backend (GetDocuments type [] []))
                      forceRefresh now now' fuel w of
                 (p, w') \<Rightarrow> (thenFilter statusFilter p, w')))"

section \<open>Optimistic update helpers\<close>

text \<open>
  The four functions that the helpers hand to \<open>updateCache\<close>. \<open>current ? ... : ...\<close> takes
  its second branch exactly when \<open>current\<close> is \<open>null\<close>.
\<close>

text \<open>\<open>current ? [...current, x] : [x]\<close>\<close>

definition appendEntry :: "entity \<Rightarrow> payload \<Rightarrow> payload" where
  "appendEntry x current = (case current of Some xs \<Rightarrow> Some (xs @ [x]) | None \<Rightarrow> Some [x])"

text \<open>\<open>current ? current.map(w => w.id === id ? { ...w, ...updates } : w) : current\<close>\<close>

definition mergeById :: "jsval option \<Rightarrow> entity \<Rightarrow> payload \<Rightarrow> payload" where
  "mergeById i updates current =
     (case current of
        Some xs \<Rightarrow> Some (map (\<lambda>w. if w ''id'' = i then w ++ updates else w) xs)
      | None \<Rightarrow> None)"

text \<open>\<open>current ? current.map(l => l.id === location.id ? location : l) : current\<close>\<close>

definition replaceById :: "entity \<Rightarrow> payload \<Rightarrow> payload" where
  "replaceById x current =
     (case current of
        Some xs \<Rightarrow> Some (map (\<lambda>l. if l ''id'' = x ''id'' then x else l) xs)
      | None \<Rightarrow> None)"

text \<open>\<open>current ? current.filter(w => w.id !== id) : current\<close>\<close>

definition removeById :: "jsval option \<Rightarrow> payload \<Rightarrow> payload" where
  "removeById i current =
     (case current of
        Some xs \<Rightarrow> Some (filter (\<lambda>w. w ''id'' \<noteq> i) xs)
      | None \<Rightarrow> None)"

text \<open>Lines 164-235: the helpers, each with the clock \<open>now\<close> read by \<open>updateCache\<close>.\<close>

definition addWarehouse :: "entity \<Rightarrow> int \<Rightarrow> cache \<Rightarrow> cache" where
  "addWarehouse warehouse = updateCache Warehouses (Fn (appendEntry warehouse))"

definition updateWarehouse :: "jsval option \<Rightarrow> entity \<Rightarrow> int \<Rightarrow> cache \<Rightarrow> cache" where
  "updateWarehouse i updates = updateCache Warehouses (Fn (mergeById i updates))"

definition removeWarehouse :: "jsval option \<Rightarrow> int \<Rightarrow> cache \<Rightarrow> cache" where
  "removeWarehouse i = updateCache Warehouses (Fn (removeById i))"

definition addLocation :: "entity \<Rightarrow> int \<Rightarrow> cache \<Rightarrow> cache" where
  "addLocation location = updateCache Locations (Fn (appendEntry location))"

definition addProduct :: "entity \<Rightarrow> int \<Rightarrow> cache \<Rightarrow> cache" where
  "addProduct product = updateCache Products (Fn (appendEntry product))"

definition removeProduct :: "jsval option \<Rightarrow> int \<Rightarrow> cache \<Rightarrow> cache" where
  "removeProduct i = updateCache Products (Fn (removeById i))"

definition addUser :: "entity \<Rightarrow> int \<Rightarrow> cache \<Rightarrow> cache" where
  "addUser u = updateCache Users (Fn (appendEntry u))"

definition updateUser :: "jsval option \<Rightarrow> entity \<Rightarrow> int \<Rightarrow> cache \<Rightarrow> cache" where
  "updateUser i updates = updateCache Users (Fn (mergeById i updates))"

definition removeUser :: "jsval option \<Rightarrow> int \<Rightarrow> cache \<Rightarrow> cache" where
  "removeUser i = updateCache Users (Fn (removeById i))"

definition addDocument :: "key \<Rightarrow> entity \<Rightarrow> int \<Rightarrow> cache \<Rightarrow> cache" where
  "addDocument type document = updateCache type (Fn (appendEntry document))"

definition updateDocument :: "key \<Rightarrow> jsval option \<Rightarrow> entity \<Rightarrow> int \<Rightarrow> cache \<Rightarrow> cache" where
  "updateDocument type i updates = updateCache type (Fn (mergeById i updates))"

definition removeDocument :: "key \<Rightarrow> jsval option \<Rightarrow> int \<Rightarrow> cache \<Rightarrow> cache" where
  "removeDocument type i = updateCache type (Fn (removeById i))"

text \<open>Lines 255-267: the helpers defined inside the provider's value.\<close>

definition updateLocationCache :: "entity \<Rightarrow> int \<Rightarrow> cache \<Rightarrow> cache" where
  "updateLocationCache location = updateCache Locations (Fn (replaceById location))"

definition updateProductCache :: "entity \<Rightarrow> int \<Rightarrow> cache \<Rightarrow> cache" where
  "updateProductCache product = updateCache Products (Fn (replaceById product))"

definition updateUserCache :: "entity \<Rightarrow> int \<Rightarrow> cache \<Rightarrow> cache" where
  "updateUserCache u = updateCache Users (Fn (replaceById u))"

section \<open>Session and logout (AuthContext.jsx, Layout.jsx, App.tsx)\<close>

text \<open>
  The state of the running application that logout touches or could touch: the token in
  local storage and the \<open>user\<close> state of \<open>AuthProvider\<close>, the state of \<open>CacheProvider\<close>, and
  the current route. In \<open>App\<close> the \<open>CacheProvider\<close> is mounted once, inside \<open>AuthProvider\<close>
  and outside the router, so its state lives as long as the page does.
\<close>

record app =
  token :: "string option"
  user :: "entity option"
  cacheState :: cache
  route :: string

text \<open>\<open>user?.role === 'ADMIN'\<close> (AuthContext.jsx, line 52).\<close>

definition isAdmin :: "entity option \<Rightarrow> bool" where
  "isAdmin usr = (case usr of None \<Rightarrow> False | Some u \<Rightarrow> u ''role'' = Some (JStr ''ADMIN''))"

text \<open>\<open>logout\<close> (AuthContext.jsx, lines 46-49).\<close>

definition logout :: "app \<Rightarrow> app" where
  "logout a = a\<lparr>token := None, user := None\<rparr>"

text \<open>
  \<open>login\<close> (AuthContext.jsx, lines 32-37). \<open>r\<close> is the outcome of \<open>api.login\<close>: the access
  token and the user, or the error, which \<open>login\<close> lets through.
\<close>

definition login :: "error + string \<times> entity \<Rightarrow> app \<Rightarrow> error + app" where
  "login r a =
     (case r of
        Inl e \<Rightarrow> Inl e
      | Inr (access_token, usr) \<Rightarrow> Inr (a\<lparr>token := Some access_token, user := Some usr\<rparr>))"

text \<open>\<open>handleLogout\<close> (Layout.jsx, lines 16-19).\<close>

definition handleLogout :: "app \<Rightarrow> app" where
  "handleLogout a = (logout a)\<lparr>route := ''/login''\<rparr>"

section \<open>Document pages (Receipts.jsx, Transfers.jsx)\<close>

text \<open>
  The buttons of a table row (Receipts.jsx, lines 169-180): the edit button under
  \<open>doc.status === 'DRAFT'\<close>, the confirm button under
  \<open>doc.status === 'DRAFT' && isAdmin\<close>.
\<close>

datatype rowButton = EditButton | ConfirmButton

definition rowButtons :: "entity \<Rightarrow> bool \<Rightarrow> rowButton list" where
  "rowButtons doc admin =
     (if doc ''status'' = Some (JStr ''DRAFT'') then [EditButton] else []) @
     (if doc ''status'' = Some (JStr ''DRAFT'') \<and> admin then [ConfirmButton] else [])"

text \<open>
  The lists the page keeps in its own state and renders (Receipts.jsx, lines 12-15), each
  \<open>[]\<close> when the page is mounted.
\<close>

record page =
  documents :: payload
  warehouses :: payload
  locations :: payload
  products :: payload

text \<open>
  \<open>loadData\<close> (Receipts.jsx, lines 30-41; the Transfers page has the same function with
  its own type). \<open>type\<close> is the page's document type and \<open>statusFilter\<close> its filter state;
  \<open>cache\<close> is the cache captured by the fetchers of the render that created this
  \<open>loadData\<close>. The four calls are started in this order in one tick and work on four
  different slots, so running them one after the other gives the same requests in the same
  order and the same store. \<open>Promise.all\<close> resolves when all four have resolved, and only
  then are the page's lists set.
\<close>

definition loadData ::
  "cache \<Rightarrow> backend \<Rightarrow> key \<Rightarrow> string \<Rightarrow> int \<Rightarrow> int \<Rightarrow> nat \<Rightarrow> page \<times> request list world
     \<Rightarrow> page \<times> request list world" where
  "loadData cache backend type statusFilter now now' fuel pw =
     (let (pg, w) = pw;
          (docs, w1) = getDocuments cache backend type statusFilter False now now' fuel w;
          (whs, w2) = getWarehouses cache backend False now now' fuel w1;
          (locs, w3) = getLocations cache backend None False now now' fuel w2;
          (prods, w4) = getProducts cache backend False now now' fuel w3
      in case (docs, whs, locs, prods) of
           (Resolved d, Resolved a, Resolved l, Resolved p) \<Rightarrow>
             (pg\<lparr>documents := d, warehouses := a, locations := l, products := p\<rparr>, w4)
         | _ \<Rightarrow> (pg, w4))"

text \<open>
  \<open>handleConfirm\<close> (Receipts.jsx, lines 109-119; the same on the Transfers page).
  \<open>accepted\<close> is the answer to the \<open>confirm\<close> dialog. \<open>api.confirmDocument\<close> sends the
  confirm request; its answer is not looked at beyond success or failure. On success the
  slot is invalidated and \<open>loadData\<close> called, both from the render that created this
  handler. The \<open>alert\<close> of the \<open>catch\<close> block changes nothing in the world.
\<close>

definition handleConfirm ::
  "cache \<Rightarrow> backend \<Rightarrow> key \<Rightarrow> string \<Rightarrow> jsval option \<Rightarrow> bool \<Rightarrow> int \<Rightarrow> int \<Rightarrow> nat
     \<Rightarrow> page \<times> request list world \<Rightarrow> page \<times> request list world" where
  "handleConfirm cache backend type statusFilter docId accepted now now' fuel pw =
     (let (pg, w) = pw
      in if \<not> accepted then (pg, w)
         else
           let (r, sent) = api backend (ConfirmDocument type docId) (env w)
           in case r of
                Inr _ \<Rightarrow>
                  loadData cache backend type statusFilter now now' fuel
                    (pg, w\<lparr>store := invalidateCache type (store w), env := sent\<rparr>)
              | Inl e \<Rightarrow> (pg, w\<lparr>env := sent\<rparr>))"

section \<open>Stock ledger (Ledger.jsx)\<close>

text \<open>
  A ledger entry as the page reads it: the fields \<open>qty_change\<close> and \<open>running_balance\<close> (the
  other fields are labels). A field holds a decimal number, here a rational, or nothing
  that is a number (\<open>null\<close>), here \<open>None\<close>.
\<close>

record ledgerEntry =
  qty_change :: "rat option"
  running_balance :: "rat option"

text \<open>
  \<open>parseFloat\<close> of a field: the number, or \<open>NaN\<close> (here \<open>None\<close>) when the field holds none.
  The number is taken exactly; the rounding of a decimal to the nearest double is not
  modelled.
\<close>

definition parseFloat :: "rat option \<Rightarrow> rat option" where
  "parseFloat field = field"

text \<open>
  What a cell of the table shows: a dash, \<open>NaN\<close>, or the text of \<open>toFixed(0)\<close>, which is
  a minus sign when the number is negative, followed by the digits of the integer nearest
  to its absolute value, the larger one when two are equally near. \<open>Fixed neg n\<close> stands
  for that text (numbers from \<open>1e21\<close> on, which \<open>toFixed\<close> prints with an exponent, are not
  told apart).
\<close>

datatype cell = Dash | NaN | Fixed bool nat

definition toFixed0 :: "rat option \<Rightarrow> cell" where
  "toFixed0 v =
     (case v of
        None \<Rightarrow> NaN
      | Some x \<Rightarrow> Fixed (x < 0) (nat \<lfloor>\<bar>x\<bar> + 1 / 2\<rfloor>))"

text \<open>
  A row of the table (Ledger.jsx, lines 114-138). \<open>qtyChange >= 0\<close> is false for \<open>NaN\<close>.
\<close>

record ledgerRow =
  inColumn :: cell
  outColumn :: cell
  balanceColumn :: cell

definition renderRow :: "ledgerEntry \<Rightarrow> ledgerRow" where
  "renderRow entry =
     (let qtyChange = parseFloat (qty_change entry);
          isPositive = (case qtyChange of None \<Rightarrow> False | Some q \<Rightarrow> q \<ge> 0)
      in \<lparr>inColumn = (if isPositive then toFixed0 qtyChange else Dash),
          outColumn = (if \<not> isPositive then toFixed0 (map_option abs qtyChange) else Dash),
          balanceColumn = toFixed0 (parseFloat (running_balance entry))\<rparr>)"

definition renderLedger :: "ledgerEntry list \<Rightarrow> ledgerRow list" where
  "renderLedger ledger = map renderRow ledger"

text \<open>
  Modelled from the spec: the ledger report of the backend (\<open>GET /reports/ledger\<close>,
  directory \<open>backend/\<close> of the repository, not among the sources). For one scope (product,
  warehouse, location) the movements are taken in order of date; each entry carries its
  change and the running balance, which is the balance of the entry before plus the
  change, seeded by the opening stock.
\<close>

fun backendLedger :: "rat \<Rightarrow> rat list \<Rightarrow> ledgerEntry list" where
  "backendLedger openingStock [] = []"
| "backendLedger openingStock (q # qs) =
     \<lparr>qty_change = Some q, running_balance = Some (openingStock + q)\<rparr>
       # backendLedger (openingStock + q) qs"

section \<open>Properties of the cache\<close>

subsection \<open>Failure of the fetch function\<close>

text \<open>
  Claim C3. When the call reaches the fetch function (the cached value is not served and
  the captured slot is not loading) and the invocation fails with \<open>e\<close>, the call is
  rejected with \<open>e\<close>, the slot's \<open>loading\<close> flag is false afterwards, its \<open>data\<close> and
  \<open>timestamp\<close> are the ones it had, and the outside world is the one left by a single
  invocation of the fetch function: there is no second invocation. The same holds for the
  \<open>catch\<close> block on its own, whatever state \<open>v\<close> the store is in when the failure arrives:
  it rejects with \<open>e\<close> and changes nothing but the \<open>loading\<close> flag of the slot.
\<close>

theorem fetchWithCache_failure:
  assumes "forceRefresh \<or> \<not> isCacheValid cache now k"
    and "\<not> loading (cache k)"
    and "fetchFunction (env w) = (Inl e, b)"
  shows "fetchWithCache cache k fetchFunction forceRefresh now now' fuel w
           = (Rejected e, \<lparr>store = (store w)(k := (store w k)\<lparr>loading := False\<rparr>), env = b\<rparr>)
         \<and> loading (store (snd (fetchWithCache cache k fetchFunction forceRefresh now now' fuel w)) k) = False
         \<and> data (store (snd (fetchWithCache cache k fetchFunction forceRefresh now now' fuel w)) k) = data (store w k)
         \<and> timestamp (store (snd (fetchWithCache cache k fetchFunction forceRefresh now now' fuel w)) k) = timestamp (store w k)
         \<and> env (snd (fetchWithCache cache k fetchFunction forceRefresh now now' fuel w)) = snd (fetchFunction (env w))
         \<and> fetchWithCache_settle k (Inl e) now' v
             = (Rejected e, v\<lparr>store := (store v)(k := (store v k)\<lparr>loading := False\<rparr>)\<rparr>)"
proof -
  have run: "fetchWithCache cache k fetchFunction forceRefresh now now' fuel w
           = (Rejected e, \<lparr>store = (store w)(k := (store w k)\<lparr>loading := False\<rparr>), env = b\<rparr>)"
    using assms
    by (auto simp: fetchWithCache_def fetchWithCache_begin_def fetchWithCache_settle_def
        setLoading_def resetLoading_def Let_def)
  have settle: "fetchWithCache_settle k (Inl e) now' v
             = (Rejected e, v\<lparr>store := (store v)(k := (store v k)\<lparr>loading := False\<rparr>)\<rparr>)"
    by (simp add: fetchWithCache_settle_def resetLoading_def)
  show ?thesis
    unfolding run using assms(3) settle by simp
qed

theorem fetchWithCache_failure_witness:
  "fetchWithCache initialCache Products (\<lambda>n::nat. (Inl (FetchError ''Failed to fetch products''), Suc n))
       False 1000 1200 0 \<lparr>store = initialCache, env = 0\<rparr>
     = (Rejected (FetchError ''Failed to fetch products''),
        \<lparr>store = initialCache(Products := (initialCache Products)\<lparr>loading := False\<rparr>), env = Suc 0\<rparr>)"
  using fetchWithCache_failure [where forceRefresh = False and cache = initialCache
      and now = 1000 and k = Products and w = "\<lparr>store = initialCache, env = 0::nat\<rparr>"
      and fetchFunction = "\<lambda>n::nat. (Inl (FetchError ''Failed to fetch products''), Suc n)"
      and e = "FetchError ''Failed to fetch products''" and b = "Suc 0"
      and now' = 1200 and fuel = 0 and v = "\<lparr>store = initialCache, env = 0::nat\<rparr>"]
  by (simp add: isCacheValid_def)

subsection \<open>One fetch in flight per key\<close>

lemma poll_loading: "loading (cache k) \<Longrightarrow> poll cache k n = None"
  by (induction n) auto

text \<open>
  Claim C1. The claim asks for one invocation of the fetch function however many calls are
  issued before the first resolves. The checks of \<open>fetchWithCache\<close> read the \<open>cache\<close>
  captured by the render, which a \<open>setCache\<close> does not change. Two calls issued from the
  same render on the empty cache: the first sets \<open>loading\<close> in the store, the second still
  reads \<open>loading = false\<close> from the captured value, and the fetch function is invoked
  twice. A caller from a later render, whose captured slot is loading, polls that same
  captured slot: after the fetch has settled in the store it is still pending, for any
  number of ticks.
\<close>

theorem fetchWithCache_same_render_fetches_twice:
  "(let d = Some [[''id'' \<mapsto> JNum 1]];
        fn = (\<lambda>n::nat. (Inr d, Suc n));
        w0 = \<lparr>store = initialCache, env = 0\<rparr>;
        (b1, w1) = fetchWithCache_begin initialCache Products fn False 1000 w0;
        (b2, w2) = fetchWithCache_begin initialCache Products fn False 1000 w1;
        (p3, w3) = fetchWithCache_settle Products (Inr d) 1200 w1
    in b1 = Fetching (Inr d)
       \<and> loading (store w1 Products)
       \<and> b2 = Fetching (Inr d)
       \<and> env w2 = 2
       \<and> \<not> loading (store w3 Products)
       \<and> data (store w3 Products) = d
       \<and> (\<forall>fuel. fetchWithCache (store w1) Products fn False 1300 1400 fuel w3 = (Pending, w3)))"
proof -
  have waiting: "\<And>c fuel (w :: nat world) fn.
      data (c Products) = None \<Longrightarrow> loading (c Products) \<Longrightarrow>
      fetchWithCache c Products fn False 1300 1400 fuel w = (Pending, w)"
    by (simp add: fetchWithCache_def fetchWithCache_begin_def isCacheValid_def poll_loading)
  show ?thesis
    by (simp add: fetchWithCache_begin_def fetchWithCache_settle_def isCacheValid_def
        setLoading_def commitFetch_def Let_def waiting)
qed

subsection \<open>Freshness window of documents\<close>

text \<open>
  Claim C2. The claim asks for a backend fetch whenever the cached documents are older
  than one minute. \<open>getDocuments\<close> skips its own one-minute shortcut for such data, but
  then calls \<open>fetchWithCache\<close> without forcing, and that call applies \<open>isCacheValid\<close> with
  the five-minute \<open>CACHE_DURATION\<close>. Receipts cached at time 1000 and asked for two minutes
  later: the cached list is returned and no request is sent.
\<close>

theorem getDocuments_two_minutes_old_not_fetched:
  "(let doc = [''id'' \<mapsto> JNum 1, ''status'' \<mapsto> JStr ''DRAFT''];
        cache = initialCache(Receipts := \<lparr>data = Some [doc], timestamp = Some 1000, loading = False\<rparr>);
        w = \<lparr>store = cache, env = []\<rparr>
    in \<not> documentsFresh (cache Receipts) 121000
       \<and> getDocuments cache (\<lambda>req. Inr (Some [])) Receipts [] False 121000 121500 0 w
           = (Resolved (Some [doc]), w))"
  by (simp add: getDocuments_def documentsFresh_def DOCUMENT_CACHE_DURATION_def fetchWithCache_def
      fetchWithCache_begin_def isCacheValid_def CACHE_DURATION_def thenFilter_def Let_def)

subsection \<open>Optimistic update helpers on a cached sequence\<close>

lemma updateCache_data:
  "data (updateCache k (Fn f) now prev k) = f (data (prev k))"
  by (simp add: updateCache_def)

lemma updateCache_frame:
  "k' \<noteq> k \<Longrightarrow> updateCache k u now prev k' = prev k'"
  by (simp add: updateCache_def)

text \<open>
  Claim C4, as the code has it. On a slot whose data is a sequence, the add helpers append
  the new entry at the end; \<open>updateLocationCache\<close>, \<open>updateProductCache\<close> and
  \<open>updateUserCache\<close> put the given entry in the place of every entry with the same id;
  \<open>updateWarehouse\<close>, \<open>updateUser\<close> and \<open>updateDocument\<close> put, in the place of every entry
  whose id matches, that entry overlaid with the updates (\<open>{...w, ...updates}\<close>: the fields
  of the updates win, the other fields of the entry stay); the remove helpers keep exactly
  the entries whose id differs. The other entries and the order are unchanged.
\<close>

theorem helpers_on_cached_sequence:
  "(data (prev Warehouses) = Some ws \<longrightarrow>
      data (addWarehouse x now prev Warehouses) = Some (ws @ [x])
    \<and> data (updateWarehouse i updates now prev Warehouses)
        = Some (map (\<lambda>w. if w ''id'' = i then w ++ updates else w) ws)
    \<and> data (removeWarehouse i now prev Warehouses) = Some (filter (\<lambda>w. w ''id'' \<noteq> i) ws))
   \<and> (data (prev Locations) = Some ls \<longrightarrow>
      data (addLocation x now prev Locations) = Some (ls @ [x])
    \<and> data (updateLocationCache x now prev Locations)
        = Some (map (\<lambda>l. if l ''id'' = x ''id'' then x else l) ls))
   \<and> (data (prev Products) = Some ps \<longrightarrow>
      data (addProduct x now prev Products) = Some (ps @ [x])
    \<and> data (updateProductCache x now prev Products)
        = Some (map (\<lambda>p. if p ''id'' = x ''id'' then x else p) ps)
    \<and> data (removeProduct i now prev Products) = Some (filter (\<lambda>p. p ''id'' \<noteq> i) ps))
   \<and> (data (prev Users) = Some us \<longrightarrow>
      data (addUser x now prev Users) = Some (us @ [x])
    \<and> data (updateUser i updates now prev Users)
        = Some (map (\<lambda>u. if u ''id'' = i then u ++ updates else u) us)
    \<and> data (updateUserCache x now prev Users)
        = Some (map (\<lambda>u. if u ''id'' = x ''id'' then x else u) us)
    \<and> data (removeUser i now prev Users) = Some (filter (\<lambda>u. u ''id'' \<noteq> i) us))
   \<and> (data (prev type) = Some ds \<longrightarrow>
      data (addDocument type x now prev type) = Some (ds @ [x])
    \<and> data (updateDocument type i updates now prev type)
        = Some (map (\<lambda>doc. if doc ''id'' = i then doc ++ updates else doc) ds)
    \<and> data (removeDocument type i now prev type) = Some (filter (\<lambda>doc. doc ''id'' \<noteq> i) ds))"
proof -
  have w: "data (prev Warehouses) = Some ws \<longrightarrow>
      data (addWarehouse x now prev Warehouses) = Some (ws @ [x])
    \<and> data (updateWarehouse i updates now prev Warehouses)
        = Some (map (\<lambda>w. if w ''id'' = i then w ++ updates else w) ws)
    \<and> data (removeWarehouse i now prev Warehouses) = Some (filter (\<lambda>w. w ''id'' \<noteq> i) ws)"
    by (simp add: addWarehouse_def updateWarehouse_def removeWarehouse_def updateCache_data
        appendEntry_def mergeById_def removeById_def)
  have l: "data (prev Locations) = Some ls \<longrightarrow>
      data (addLocation x now prev Locations) = Some (ls @ [x])
    \<and> data (updateLocationCache x now prev Locations)
        = Some (map (\<lambda>l. if l ''id'' = x ''id'' then x else l) ls)"
    by (simp add: addLocation_def updateLocationCache_def updateCache_data
        appendEntry_def replaceById_def)
  have p: "data (prev Products) = Some ps \<longrightarrow>
      data (addProduct x now prev Products) = Some (ps @ [x])
    \<and> data (updateProductCache x now prev Products)
        = Some (map (\<lambda>p. if p ''id'' = x ''id'' then x else p) ps)
    \<and> data (removeProduct i now prev Products) = Some (filter (\<lambda>p. p ''id'' \<noteq> i) ps)"
    by (simp add: addProduct_def updateProductCache_def removeProduct_def updateCache_data
        appendEntry_def replaceById_def removeById_def)
  have u: "data (prev Users) = Some us \<longrightarrow>
      data (addUser x now prev Users) = Some (us @ [x])
    \<and> data (updateUser i updates now prev Users)
        = Some (map (\<lambda>u. if u ''id'' = i then u ++ updates else u) us)
    \<and> data (updateUserCache x now prev Users)
        = Some (map (\<lambda>u. if u ''id'' = x ''id'' then x else u) us)
    \<and> data (removeUser i now prev Users) = Some (filter (\<lambda>u. u ''id'' \<noteq> i) us)"
    by (simp add: addUser_def updateUser_def updateUserCache_def removeUser_def updateCache_data
        appendEntry_def mergeById_def replaceById_def removeById_def)
  have d: "data (prev type) = Some ds \<longrightarrow>
      data (addDocument type x now prev type) = Some (ds @ [x])
    \<and> data (updateDocument type i updates now prev type)
        = Some (map (\<lambda>doc. if doc ''id'' = i then doc ++ updates else doc) ds)
    \<and> data (removeDocument type i now prev type) = Some (filter (\<lambda>doc. doc ''id'' \<noteq> i) ds)"
    by (simp add: addDocument_def updateDocument_def removeDocument_def updateCache_data
        appendEntry_def mergeById_def removeById_def)
  show ?thesis
    by (rule conjI [OF w conjI [OF l conjI [OF p conjI [OF u d]]]])
qed

text \<open>Claim C4, the theorem at two cached entries with ids 1 and 2.\<close>

theorem helpers_on_cached_sequence_witness:
  "(let e1 = [''id'' \<mapsto> JNum 1, ''name'' \<mapsto> JStr ''A''];
        e2 = [''id'' \<mapsto> JNum 2, ''name'' \<mapsto> JStr ''C''];
        e3 = [''id'' \<mapsto> JNum 2, ''name'' \<mapsto> JStr ''D''];
        prev = (\<lambda>k. \<lparr>data = Some [e1, e2], timestamp = Some 1, loading = False\<rparr>)
    in data (prev Warehouses) = Some [e1, e2]
       \<and> data (prev Locations) = Some [e1, e2]
       \<and> data (prev Products) = Some [e1, e2]
       \<and> data (prev Users) = Some [e1, e2]
       \<and> data (prev Receipts) = Some [e1, e2]
       \<and> data (addWarehouse e3 1000 prev Warehouses) = Some [e1, e2, e3]
       \<and> data (updateWarehouse (Some (JNum 1)) [''name'' \<mapsto> JStr ''B''] 1000 prev Warehouses)
            = Some [e1 ++ [''name'' \<mapsto> JStr ''B''], e2]
       \<and> data (updateLocationCache e3 1000 prev Locations) = Some [e1, e3]
       \<and> data (removeProduct (Some (JNum 1)) 1000 prev Products) = Some [e2]
       \<and> data (updateUserCache e3 1000 prev Users) = Some [e1, e3]
       \<and> data (removeDocument Receipts (Some (JNum 2)) 1000 prev Receipts) = Some [e1])"
  using helpers_on_cached_sequence
    [where prev = "\<lambda>k. \<lparr>data = Some [[''id'' \<mapsto> JNum 1, ''name'' \<mapsto> JStr ''A''],
                                     [''id'' \<mapsto> JNum 2, ''name'' \<mapsto> JStr ''C'']],
                         timestamp = Some 1, loading = False\<rparr>"
      and ws = "[[''id'' \<mapsto> JNum 1, ''name'' \<mapsto> JStr ''A''], [''id'' \<mapsto> JNum 2, ''name'' \<mapsto> JStr ''C'']]"
      and ls = "[[''id'' \<mapsto> JNum 1, ''name'' \<mapsto> JStr ''A''], [''id'' \<mapsto> JNum 2, ''name'' \<mapsto> JStr ''C'']]"
      and ps = "[[''id'' \<mapsto> JNum 1, ''name'' \<mapsto> JStr ''A''], [''id'' \<mapsto> JNum 2, ''name'' \<mapsto> JStr ''C'']]"
      and us = "[[''id'' \<mapsto> JNum 1, ''name'' \<mapsto> JStr ''A''], [''id'' \<mapsto> JNum 2, ''name'' \<mapsto> JStr ''C'']]"
      and ds = "[[''id'' \<mapsto> JNum 1, ''name'' \<mapsto> JStr ''A''], [''id'' \<mapsto> JNum 2, ''name'' \<mapsto> JStr ''C'']]"
      and type = Receipts and now = 1000
      and x = "[''id'' \<mapsto> JNum 2, ''name'' \<mapsto> JStr ''D'']"]
    helpers_on_cached_sequence
    [where prev = "\<lambda>k. \<lparr>data = Some [[''id'' \<mapsto> JNum 1, ''name'' \<mapsto> JStr ''A''],
                                     [''id'' \<mapsto> JNum 2, ''name'' \<mapsto> JStr ''C'']],
                         timestamp = Some 1, loading = False\<rparr>"
      and ws = "[[''id'' \<mapsto> JNum 1, ''name'' \<mapsto> JStr ''A''], [''id'' \<mapsto> JNum 2, ''name'' \<mapsto> JStr ''C'']]"
      and ps = "[[''id'' \<mapsto> JNum 1, ''name'' \<mapsto> JStr ''A''], [''id'' \<mapsto> JNum 2, ''name'' \<mapsto> JStr ''C'']]"
      and type = Products and now = 1000
      and i = "Some (JNum 1)" and updates = "[''name'' \<mapsto> JStr ''B'']"]
    helpers_on_cached_sequence
    [where prev = "\<lambda>k. \<lparr>data = Some [[''id'' \<mapsto> JNum 1, ''name'' \<mapsto> JStr ''A''],
                                     [''id'' \<mapsto> JNum 2, ''name'' \<mapsto> JStr ''C'']],
                         timestamp = Some 1, loading = False\<rparr>"
      and ds = "[[''id'' \<mapsto> JNum 1, ''name'' \<mapsto> JStr ''A''], [''id'' \<mapsto> JNum 2, ''name'' \<mapsto> JStr ''C'']]"
      and type = Receipts and now = 1000
      and i = "Some (JNum 2)"]
  by (simp add: Let_def)

text \<open>
  Claim C4 as stated says that an update helper replaces the matching entry with the given
  updates. \<open>updateWarehouse(1, {name: 'B'})\<close> on the cached \<open>[{id: 1, name: 'A'}]\<close> does not
  leave \<open>[{name: 'B'}]\<close>: the entry keeps its \<open>id\<close>.
\<close>

theorem updateWarehouse_merges_counterexample:
  "data (updateWarehouse (Some (JNum 1)) [''name'' \<mapsto> JStr ''B''] 1000
      (initialCache(Warehouses :=
          \<lparr>data = Some [[''id'' \<mapsto> JNum 1, ''name'' \<mapsto> JStr ''A'']], timestamp = Some 1, loading = False\<rparr>))
      Warehouses)
    \<noteq> Some [[''name'' \<mapsto> JStr ''B'']]"
proof
  assume "data (updateWarehouse (Some (JNum 1)) [''name'' \<mapsto> JStr ''B''] 1000
      (initialCache(Warehouses :=
          \<lparr>data = Some [[''id'' \<mapsto> JNum 1, ''name'' \<mapsto> JStr ''A'']], timestamp = Some 1, loading = False\<rparr>))
      Warehouses)
    = Some [[''name'' \<mapsto> JStr ''B'']]"
  then have "[''id'' \<mapsto> JNum 1, ''name'' \<mapsto> JStr ''A''] ++ [''name'' \<mapsto> JStr ''B'']
      = [''name'' \<mapsto> JStr ''B'']"
    by (simp add: updateWarehouse_def updateCache_def mergeById_def)
  then have "([''id'' \<mapsto> JNum 1, ''name'' \<mapsto> JStr ''A''] ++ [''name'' \<mapsto> JStr ''B'']) ''id''
      = [''name'' \<mapsto> JStr ''B''] ''id''"
    by (rule arg_cong)
  then show False by simp
qed

subsection \<open>Optimistic update helpers on an empty slot\<close>

text \<open>
  Claim C5, as the code has it. On a slot whose data is \<open>null\<close>, the update and remove
  helpers leave the data \<open>null\<close>; the add helpers set it to the one-element sequence of the
  new entry (\<open>current ? [...current, x] : [x]\<close>). Every helper goes through \<open>updateCache\<close>,
  which sets the slot's timestamp to the clock and \<open>loading\<close> to false.
\<close>

theorem helpers_on_null:
  "(data (prev Warehouses) = None \<longrightarrow>
      data (addWarehouse x now prev Warehouses) = Some [x]
    \<and> data (updateWarehouse i updates now prev Warehouses) = None
    \<and> data (removeWarehouse i now prev Warehouses) = None)
   \<and> (data (prev Locations) = None \<longrightarrow>
      data (addLocation x now prev Locations) = Some [x]
    \<and> data (updateLocationCache x now prev Locations) = None)
   \<and> (data (prev Products) = None \<longrightarrow>
      data (addProduct x now prev Products) = Some [x]
    \<and> data (updateProductCache x now prev Products) = None
    \<and> data (removeProduct i now prev Products) = None)
   \<and> (data (prev Users) = None \<longrightarrow>
      data (addUser x now prev Users) = Some [x]
    \<and> data (updateUser i updates now prev Users) = None
    \<and> data (updateUserCache x now prev Users) = None
    \<and> data (removeUser i now prev Users) = None)
   \<and> (data (prev type) = None \<longrightarrow>
      data (addDocument type x now prev type) = Some [x]
    \<and> data (updateDocument type i updates now prev type) = None
    \<and> data (removeDocument type i now prev type) = None)
   \<and> timestamp (updateCache k u now prev k) = Some now
   \<and> loading (updateCache k u now prev k) = False"
proof -
  have w: "data (prev Warehouses) = None \<longrightarrow>
      data (addWarehouse x now prev Warehouses) = Some [x]
    \<and> data (updateWarehouse i updates now prev Warehouses) = None
    \<and> data (removeWarehouse i now prev Warehouses) = None"
    by (simp add: addWarehouse_def updateWarehouse_def removeWarehouse_def updateCache_data
        appendEntry_def mergeById_def removeById_def)
  have l: "data (prev Locations) = None \<longrightarrow>
      data (addLocation x now prev Locations) = Some [x]
    \<and> data (updateLocationCache x now prev Locations) = None"
    by (simp add: addLocation_def updateLocationCache_def updateCache_data
        appendEntry_def replaceById_def)
  have p: "data (prev Products) = None \<longrightarrow>
      data (addProduct x now prev Products) = Some [x]
    \<and> data (updateProductCache x now prev Products) = None
    \<and> data (removeProduct i now prev Products) = None"
    by (simp add: addProduct_def updateProductCache_def removeProduct_def updateCache_data
        appendEntry_def replaceById_def removeById_def)
  have u: "data (prev Users) = None \<longrightarrow>
      data (addUser x now prev Users) = Some [x]
    \<and> data (updateUser i updates now prev Users) = None
    \<and> data (updateUserCache x now prev Users) = None
    \<and> data (removeUser i now prev Users) = None"
    by (simp add: addUser_def updateUser_def updateUserCache_def removeUser_def updateCache_data
        appendEntry_def mergeById_def replaceById_def removeById_def)
  have d: "data (prev type) = None \<longrightarrow>
      data (addDocument type x now prev type) = Some [x]
    \<and> data (updateDocument type i updates now prev type) = None
    \<and> data (removeDocument type i now prev type) = None"
    by (simp add: addDocument_def updateDocument_def removeDocument_def updateCache_data
        appendEntry_def mergeById_def removeById_def)
  have t: "timestamp (updateCache k u now prev k) = Some now
      \<and> loading (updateCache k u now prev k) = False"
    by (simp add: updateCache_def)
  show ?thesis
    by (rule conjI [OF w conjI [OF l conjI [OF p conjI [OF u conjI [OF d t]]]]])
qed

text \<open>Claim C5, the theorem on the initial cache, where every slot is empty.\<close>

theorem helpers_on_null_witness:
  "data (initialCache Warehouses) = None
   \<and> data (initialCache Locations) = None
   \<and> data (initialCache Products) = None
   \<and> data (initialCache Users) = None
   \<and> data (initialCache Transfers) = None
   \<and> data (addWarehouse [''id'' \<mapsto> JNum 1] 1000 initialCache Warehouses) = Some [[''id'' \<mapsto> JNum 1]]
   \<and> data (updateWarehouse (Some (JNum 1)) [''name'' \<mapsto> JStr ''B''] 1000 initialCache Warehouses) = None
   \<and> data (updateLocationCache [''id'' \<mapsto> JNum 1] 1000 initialCache Locations) = None
   \<and> data (removeProduct (Some (JNum 1)) 1000 initialCache Products) = None
   \<and> data (removeUser (Some (JNum 1)) 1000 initialCache Users) = None
   \<and> data (addDocument Transfers [''id'' \<mapsto> JNum 1] 1000 initialCache Transfers) = Some [[''id'' \<mapsto> JNum 1]]
   \<and> data (updateDocument Transfers (Some (JNum 1)) [''name'' \<mapsto> JStr ''B''] 1000 initialCache Transfers) = None"
  using helpers_on_null
    [where prev = initialCache and type = Transfers and now = 1000 and x = "[''id'' \<mapsto> JNum 1]"
      and i = "Some (JNum 1)" and updates = "[''name'' \<mapsto> JStr ''B'']"]
  by simp

text \<open>
  Claim C5 as stated covers the add helpers. \<open>addWarehouse\<close> on the initial cache, whose
  \<open>warehouses\<close> slot has data \<open>null\<close>, does not leave the data \<open>null\<close>.
\<close>

theorem addWarehouse_on_null_counterexample:
  "data (initialCache Warehouses) = None
   \<and> data (addWarehouse [''id'' \<mapsto> JNum 1] 1000 initialCache Warehouses) \<noteq> None"
  by (simp add: addWarehouse_def updateCache_def appendEntry_def)

subsection \<open>Frame: the slots of the other keys\<close>

lemma fetchWithCache_settle_frame:
  "k' \<noteq> k \<Longrightarrow> store (snd (fetchWithCache_settle k r now w)) k' = store w k'"
  by (simp add: fetchWithCache_settle_def commitFetch_def resetLoading_def split: sum.splits)

text \<open>
  Claim C10. An operation on the key \<open>k\<close> leaves the slot of every other key \<open>k'\<close> as it
  was: \<open>updateCache\<close>, \<open>invalidateCache\<close>, the start of \<open>fetchWithCache\<close> (setting
  \<open>loading\<close>), its end on success and on failure, a whole call, the document helpers for
  the type \<open>k\<close>, and the helpers of warehouses, locations, products and users when \<open>k\<close> is
  their key.
\<close>

theorem cache_frame:
  assumes "k' \<noteq> k"
  shows "updateCache k u now prev k' = prev k'
     \<and> invalidateCache k prev k' = prev k'
     \<and> store (snd (fetchWithCache_begin cache k fetchFunction forceRefresh now w)) k' = store w k'
     \<and> store (snd (fetchWithCache_settle k r now w)) k' = store w k'
     \<and> store (snd (fetchWithCache cache k fetchFunction forceRefresh now now' fuel w)) k' = store w k'
     \<and> addDocument k x now prev k' = prev k'
     \<and> updateDocument k i updates now prev k' = prev k'
     \<and> removeDocument k i now prev k' = prev k'
     \<and> (k = Warehouses \<longrightarrow>
          addWarehouse x now prev k' = prev k'
        \<and> updateWarehouse i updates now prev k' = prev k'
        \<and> removeWarehouse i now prev k' = prev k')
     \<and> (k = Locations \<longrightarrow>
          addLocation x now prev k' = prev k'
        \<and> updateLocationCache x now prev k' = prev k')
     \<and> (k = Products \<longrightarrow>
          addProduct x now prev k' = prev k'
        \<and> updateProductCache x now prev k' = prev k'
        \<and> removeProduct i now prev k' = prev k')
     \<and> (k = Users \<longrightarrow>
          addUser x now prev k' = prev k'
        \<and> updateUser i updates now prev k' = prev k'
        \<and> updateUserCache x now prev k' = prev k'
        \<and> removeUser i now prev k' = prev k')"
proof -
  have c1: "updateCache k u now prev k' = prev k'"
    using assms by (rule updateCache_frame)
  have c2: "invalidateCache k prev k' = prev k'"
    using assms by (simp add: invalidateCache_def)
  have c3: "store (snd (fetchWithCache_begin cache k fetchFunction forceRefresh now w)) k' = store w k'"
    using assms by (simp add: fetchWithCache_begin_def setLoading_def Let_def split: prod.splits)
  have c4: "store (snd (fetchWithCache_settle k r now w)) k' = store w k'"
    using assms by (rule fetchWithCache_settle_frame)
  have c5: "store (snd (fetchWithCache cache k fetchFunction forceRefresh now now' fuel w)) k' = store w k'"
  proof (cases "fetchWithCache_begin cache k fetchFunction forceRefresh now w")
    case (Pair br w1)
    then have "store w1 k' = store w k'" using c3 by simp
    with Pair show ?thesis
      by (cases br)
        (simp_all add: fetchWithCache_def fetchWithCache_settle_frame [OF assms] split: option.splits)
  qed
  have c6: "addDocument k x now prev k' = prev k'
     \<and> updateDocument k i updates now prev k' = prev k'
     \<and> removeDocument k i now prev k' = prev k'"
    using assms by (simp add: addDocument_def updateDocument_def removeDocument_def updateCache_frame)
  have c7: "k = Warehouses \<longrightarrow>
          addWarehouse x now prev k' = prev k'
        \<and> updateWarehouse i updates now prev k' = prev k'
        \<and> removeWarehouse i now prev k' = prev k'"
    using assms by (auto simp: addWarehouse_def updateWarehouse_def removeWarehouse_def updateCache_def)
  have c8: "k = Locations \<longrightarrow>
          addLocation x now prev k' = prev k'
        \<and> updateLocationCache x now prev k' = prev k'"
    using assms by (auto simp: addLocation_def updateLocationCache_def updateCache_def)
  have c9: "k = Products \<longrightarrow>
          addProduct x now prev k' = prev k'
        \<and> updateProductCache x now prev k' = prev k'
        \<and> removeProduct i now prev k' = prev k'"
    using assms by (auto simp: addProduct_def updateProductCache_def removeProduct_def updateCache_def)
  have c10: "k = Users \<longrightarrow>
          addUser x now prev k' = prev k'
        \<and> updateUser i updates now prev k' = prev k'
        \<and> updateUserCache x now prev k' = prev k'
        \<and> removeUser i now prev k' = prev k'"
    using assms
    by (auto simp: addUser_def updateUser_def updateUserCache_def removeUser_def updateCache_def)
  from c1 c2 c3 c4 c5 c6 c7 c8 c9 c10 show ?thesis
    by blast
qed

text \<open>Claim C10, the theorem for operations on \<open>warehouses\<close> seen from \<open>products\<close>.\<close>

theorem cache_frame_witness:
  "Products \<noteq> Warehouses
   \<and> invalidateCache Warehouses initialCache Products = initialCache Products
   \<and> addWarehouse [''id'' \<mapsto> JNum 1] 1000 initialCache Products = initialCache Products
   \<and> removeDocument Warehouses (Some (JNum 1)) 1000 initialCache Products = initialCache Products
   \<and> store (snd (fetchWithCache initialCache Warehouses (\<lambda>n::nat. (Inr (Some []), Suc n)) False 1000 1200 0
         \<lparr>store = initialCache, env = 0\<rparr>)) Products = initialCache Products"
  using cache_frame [where k' = Products and k = Warehouses and prev = initialCache and now = 1000
      and x = "[''id'' \<mapsto> JNum 1]" and i = "Some (JNum 1)" and cache = initialCache
      and fetchFunction = "\<lambda>n::nat. (Inr (Some []), Suc n)" and forceRefresh = False
      and now' = 1200 and fuel = 0 and w = "\<lparr>store = initialCache, env = 0\<rparr>"]
  by simp

subsection \<open>Documents are cached unfiltered\<close>











subsection \<open>Reload after a confirmation\<close>

text \<open>
  Claim C7. The claim asks that after a successful confirmation the client invalidates the
  slot of the document type and reloads. \<open>handleConfirm\<close> calls \<open>invalidateCache\<close> and then
  \<open>loadData\<close> in the same tick, and \<open>loadData\<close> goes through the fetchers of the render
  that created the handler, which read the cache captured before the invalidation. An
  admin confirms the draft receipt \<open>r1\<close> 30 seconds after the page loaded its lists: the
  confirm request is the only request sent, the slot is invalidated in the store, and the
  page's documents are again the captured list, with \<open>r1\<close> as \<open>DRAFT\<close> and its confirm
  button offered, although a request for the receipts would have brought \<open>r1\<close> as
  \<open>CONFIRMED\<close>, a row without that button. The same two minutes after the load, on a
  page whose own lists are empty: the reload fills them from the captured cache.
\<close>

theorem handleConfirm_reload_served_from_captured_cache:
  "(let draft = [''id'' \<mapsto> JStr ''r1'', ''status'' \<mapsto> JStr ''DRAFT''];
        confirmed = [''id'' \<mapsto> JStr ''r1'', ''status'' \<mapsto> JStr ''CONFIRMED''];
        wh = [''id'' \<mapsto> JStr ''w1''];
        admin = isAdmin (Some [''role'' \<mapsto> JStr ''ADMIN'']);
        cache = (\<lambda>k. case k of
                   Receipts \<Rightarrow> \<lparr>data = Some [draft], timestamp = Some 1000, loading = False\<rparr>
                 | Warehouses \<Rightarrow> \<lparr>data = Some [wh], timestamp = Some 1000, loading = False\<rparr>
                 | Locations \<Rightarrow> \<lparr>data = Some [], timestamp = Some 1000, loading = False\<rparr>
                 | Products \<Rightarrow> \<lparr>data = Some [], timestamp = Some 1000, loading = False\<rparr>
                 | _ \<Rightarrow> \<lparr>data = None, timestamp = None, loading = False\<rparr>);
        backend = (\<lambda>req. case req of
                     GetDocuments _ _ _ \<Rightarrow> Inr (Some [confirmed])
                   | GetWarehouses \<Rightarrow> Inr (Some [wh])
                   | _ \<Rightarrow> Inr (Some []));
        shown = \<lparr>documents = Some [draft], warehouses = Some [wh], locations = Some [], products = Some []\<rparr>;
        blank = \<lparr>documents = Some [], warehouses = Some [], locations = Some [], products = Some []\<rparr>;
        w = \<lparr>store = cache, env = []\<rparr>;
        after = \<lparr>store = cache(Receipts := \<lparr>data = None, timestamp = None, loading = False\<rparr>),
                 env = [ConfirmDocument Receipts (Some (JStr ''r1''))]\<rparr>
    in ConfirmButton \<in> set (rowButtons draft admin)
       \<and> backend (ConfirmDocument Receipts (Some (JStr ''r1''))) = Inr (Some [])
       \<and> backend (GetDocuments Receipts [] []) = Inr (Some [confirmed])
       \<and> handleConfirm cache backend Receipts [] (Some (JStr ''r1'')) True 31000 31500 0 (shown, w)
           = (shown, after)
       \<and> handleConfirm cache backend Receipts [] (Some (JStr ''r1'')) True 121000 121500 0 (blank, w)
           = (shown, after)
       \<and> ConfirmButton \<notin> set (rowButtons confirmed admin))"
  by (simp add: Let_def handleConfirm_def loadData_def api_def invalidateCache_def getDocuments_def
      getWarehouses_def getLocations_def getProducts_def documentsFresh_def DOCUMENT_CACHE_DURATION_def
      fetchWithCache_def fetchWithCache_begin_def isCacheValid_def CACHE_DURATION_def thenFilter_def
      rowButtons_def isAdmin_def)

subsection \<open>Running balance of the ledger\<close>

lemma backendLedger_length: "length (backendLedger openingStock qs) = length qs"
  by (induction qs arbitrary: openingStock) auto

lemma backendLedger_step:
  "Suc i < length qs \<Longrightarrow>
     \<exists>b q. running_balance (backendLedger openingStock qs ! i) = Some b
       \<and> qty_change (backendLedger openingStock qs ! Suc i) = Some q
       \<and> running_balance (backendLedger openingStock qs ! Suc i) = Some (b + q)"
proof (induction qs arbitrary: openingStock i)
  case Nil
  then show ?case by simp
next
  case (Cons q qs)
  show ?case
  proof (cases i)
    case 0
    with Cons.prems show ?thesis by (cases qs) auto
  next
    case (Suc j)
    with Cons.prems have "Suc j < length qs" by simp
    from Cons.IH [OF this, of "openingStock + q"] Suc show ?thesis by simp
  qed
qed

lemma backendLedger_first:
  "qs \<noteq> [] \<Longrightarrow>
     \<exists>q. qty_change (backendLedger openingStock qs ! 0) = Some q
       \<and> running_balance (backendLedger openingStock qs ! 0) = Some (openingStock + q)"
  by (cases qs) auto

lemma floor_rat_numeral: "\<lfloor>(numeral a :: rat) / numeral b\<rfloor> = numeral a div numeral b"
  using floor_divide_of_int_eq [where ?'a = rat and k = "numeral a" and l = "numeral b"] by simp

lemma toFixed0_of_int: "toFixed0 (Some (of_int n)) = Fixed (n < 0) (nat \<bar>n\<bar>)"
proof -
  have "\<lfloor>\<bar>of_int n :: rat\<bar> + 1 / 2\<rfloor> = \<bar>n\<bar>"
    by (rule floor_unique) (simp_all flip: of_int_abs)
  then show ?thesis
    by (simp add: toFixed0_def)
qed

text \<open>
  Claim C8. In the ledger of a scope, every entry after the first carries a change and a
  running balance that is the running balance of the entry before it plus that change,
  and the first entry's running balance is the opening stock plus its own change. With
  opening stock 0 the changes +10, -3, +5 give the entries with the balances 10, 7, 12,
  and the page renders them as the rows (10, -, 10), (-, 3, 7), (5, -, 12). The page
  shows every number through \<open>toFixed(0)\<close>: a whole running balance is shown as it is, a
  fractional one rounded (the balances 2/5 and 4/5 are shown as 0 and 1), so the
  invariant is one of the entries, not of the numbers on the screen.
\<close>

theorem ledger_running_balance:
  "(\<forall>i. 0 < i \<and> i < length (backendLedger openingStock qs) \<longrightarrow>
        (\<exists>b q. running_balance (backendLedger openingStock qs ! (i - 1)) = Some b
           \<and> qty_change (backendLedger openingStock qs ! i) = Some q
           \<and> running_balance (backendLedger openingStock qs ! i) = Some (b + q)))
   \<and> (backendLedger openingStock qs \<noteq> [] \<longrightarrow>
        (\<exists>q. qty_change (backendLedger openingStock qs ! 0) = Some q
           \<and> running_balance (backendLedger openingStock qs ! 0) = Some (openingStock + q)))
   \<and> backendLedger 0 [10, - 3, 5]
        = [\<lparr>qty_change = Some 10, running_balance = Some 10\<rparr>,
           \<lparr>qty_change = Some (- 3), running_balance = Some 7\<rparr>,
           \<lparr>qty_change = Some 5, running_balance = Some 12\<rparr>]
   \<and> renderLedger (backendLedger 0 [10, - 3, 5])
        = [\<lparr>inColumn = Fixed False 10, outColumn = Dash, balanceColumn = Fixed False 10\<rparr>,
           \<lparr>inColumn = Dash, outColumn = Fixed False 3, balanceColumn = Fixed False 7\<rparr>,
           \<lparr>inColumn = Fixed False 5, outColumn = Dash, balanceColumn = Fixed False 12\<rparr>]
   \<and> (running_balance entry = Some (of_int n) \<longrightarrow>
        balanceColumn (renderRow entry) = Fixed (n < 0) (nat \<bar>n\<bar>))
   \<and> map balanceColumn (renderLedger (backendLedger 0 [2 / 5, 2 / 5])) = [Fixed False 0, Fixed False 1]"
proof -
  have c1: "\<forall>i. 0 < i \<and> i < length (backendLedger openingStock qs) \<longrightarrow>
        (\<exists>b q. running_balance (backendLedger openingStock qs ! (i - 1)) = Some b
           \<and> qty_change (backendLedger openingStock qs ! i) = Some q
           \<and> running_balance (backendLedger openingStock qs ! i) = Some (b + q))"
  proof (intro allI impI)
    fix i
    assume "0 < i \<and> i < length (backendLedger openingStock qs)"
    then obtain j where "i = Suc j" and "Suc j < length qs"
      by (cases i) (auto simp: backendLedger_length)
    then show "\<exists>b q. running_balance (backendLedger openingStock qs ! (i - 1)) = Some b
           \<and> qty_change (backendLedger openingStock qs ! i) = Some q
           \<and> running_balance (backendLedger openingStock qs ! i) = Some (b + q)"
      using backendLedger_step [of j qs openingStock] by simp
  qed
  have c2: "backendLedger openingStock qs \<noteq> [] \<longrightarrow>
        (\<exists>q. qty_change (backendLedger openingStock qs ! 0) = Some q
           \<and> running_balance (backendLedger openingStock qs ! 0) = Some (openingStock + q))"
  proof
    assume "backendLedger openingStock qs \<noteq> []"
    then have "qs \<noteq> []" by (cases qs) auto
    then show "\<exists>q. qty_change (backendLedger openingStock qs ! 0) = Some q
           \<and> running_balance (backendLedger openingStock qs ! 0) = Some (openingStock + q)"
      by (rule backendLedger_first)
  qed
  have c3: "backendLedger 0 [10, - 3, 5]
        = [\<lparr>qty_change = Some 10, running_balance = Some 10\<rparr>,
           \<lparr>qty_change = Some (- 3), running_balance = Some 7\<rparr>,
           \<lparr>qty_change = Some 5, running_balance = Some 12\<rparr>]"
    by simp
  have c4: "renderLedger (backendLedger 0 [10, - 3, 5])
        = [\<lparr>inColumn = Fixed False 10, outColumn = Dash, balanceColumn = Fixed False 10\<rparr>,
           \<lparr>inColumn = Dash, outColumn = Fixed False 3, balanceColumn = Fixed False 7\<rparr>,
           \<lparr>inColumn = Fixed False 5, outColumn = Dash, balanceColumn = Fixed False 12\<rparr>]"
    by (simp add: renderLedger_def renderRow_def parseFloat_def toFixed0_def Let_def
        floor_rat_numeral)
  have c5: "running_balance entry = Some (of_int n) \<longrightarrow>
        balanceColumn (renderRow entry) = Fixed (n < 0) (nat \<bar>n\<bar>)"
    by (simp add: renderRow_def parseFloat_def toFixed0_of_int Let_def)
  have c6: "map balanceColumn (renderLedger (backendLedger 0 [2 / 5, 2 / 5])) = [Fixed False 0, Fixed False 1]"
    by (simp add: renderLedger_def renderRow_def parseFloat_def toFixed0_def Let_def
        floor_rat_numeral)
  show ?thesis
    by (rule conjI [OF c1 conjI [OF c2 conjI [OF c3 conjI [OF c4 conjI [OF c5 c6]]]]])
qed

text \<open>
  Claim C8, the theorem on the ledger of the changes +10, -3, +5 from 0, at its second
  entry, and on the rendering of an entry with the running balance 7.
\<close>

theorem ledger_running_balance_witness:
  "0 < (1::nat) \<and> 1 < length (backendLedger 0 [10, - 3, 5])
   \<and> backendLedger 0 [10, - 3, 5] \<noteq> []
   \<and> running_balance (backendLedger 0 [10, - 3, 5] ! 0) = Some 10
   \<and> qty_change (backendLedger 0 [10, - 3, 5] ! 1) = Some (- 3)
   \<and> running_balance (backendLedger 0 [10, - 3, 5] ! 1) = Some (10 + (- 3))
   \<and> running_balance \<lparr>qty_change = Some (- 3), running_balance = Some (of_int 7)\<rparr> = Some (of_int 7)
   \<and> balanceColumn (renderRow \<lparr>qty_change = Some (- 3), running_balance = Some (of_int 7)\<rparr>)
        = Fixed False 7"
  using ledger_running_balance [where openingStock = 0 and qs = "[10, - 3, 5]"
      and entry = "\<lparr>qty_change = Some (- 3), running_balance = Some (of_int 7)\<rparr>" and n = 7]
  by simp

subsection \<open>Clearing the cache, and logout\<close>

text \<open>
  Claim C9. The claim asks that every slot is empty after a logout. \<open>clearAllCache\<close> would
  empty the slot, but nothing calls it. An admin with a cached list of users logs out:
  token and user are cleared and the route is \<open>/login\<close>, the cache is the one it was, and
  its \<open>users\<close> slot is not empty. A staff user then logs in in the same tab, a minute
  after the list was cached: \<open>getUsers\<close> hands over the list cached for the admin, and no
  request is sent.
\<close>

theorem logout_keeps_cache_for_next_user:
  "(let admin = [''id'' \<mapsto> JStr ''u1'', ''role'' \<mapsto> JStr ''ADMIN''];
        staff = [''id'' \<mapsto> JStr ''u2'', ''role'' \<mapsto> JStr ''STAFF''];
        cache = initialCache(Users := \<lparr>data = Some [admin, staff], timestamp = Some 1000, loading = False\<rparr>);
        a0 = \<lparr>token = Some ''t1'', user = Some admin, cacheState = cache, route = ''/users''\<rparr>;
        a1 = handleLogout a0;
        a2 = \<lparr>token = Some ''t2'', user = Some staff, cacheState = cache, route = ''/login''\<rparr>
    in a1 = \<lparr>token = None, user = None, cacheState = cache, route = ''/login''\<rparr>
       \<and> cacheState a1 Users \<noteq> \<lparr>data = None, timestamp = None, loading = False\<rparr>
       \<and> clearAllCache cache Users = \<lparr>data = None, timestamp = None, loading = False\<rparr>
       \<and> login (Inr (''t2'', staff)) a1 = Inr a2
       \<and> getUsers (cacheState a2) (\<lambda>req. Inr (Some [staff])) False 61000 61500 0
             \<lparr>store = cacheState a2, env = []\<rparr>
           = (Resolved (Some [admin, staff]), \<lparr>store = cache, env = []\<rparr>))"
  by (simp add: Let_def handleLogout_def logout_def login_def clearAllCache_def getUsers_def
      fetchWithCache_def fetchWithCache_begin_def isCacheValid_def CACHE_DURATION_def)

end
